theory Spec2Isabelle
  imports Complex_Main "HOL-Library.Word"
begin

section \<open>JavaScript values\<close>

text \<open>
  The seal module takes some arguments at type \<open>any\<close> (\<open>validateSeal\<close>,
  \<open>sealForOutput\<close>) and stores \<open>any\<close> in \<open>metadata\<close> and \<open>content\<close>.
  Such values are modelled as plain data: no accessor properties, no proxies, no cycles.
  Strings are \<open>string\<close>; a character outside ASCII stands for its UTF-8 bytes. The code
  only concatenates strings and tests them for emptiness. \<open>Finite 0\<close> stands for both
  zeros of a \<open>number\<close>.
\<close>

datatype number = NaN | Infinity | NegInfinity | Finite real

datatype jsval =
    JUndefined
  | JNull
  | JBoolean bool
  | JNumber number
  | JString string
  | JFunction
  | JArray "jsval list"
  | JObject "(string \<times> jsval) list"

text \<open>\<open>typeof v\<close>, as the language defines it (\<open>null\<close> is an \<open>object\<close>).\<close>

fun typeof :: "jsval \<Rightarrow> string" where
  "typeof JUndefined = ''undefined''"
| "typeof JNull = ''object''"
| "typeof (JBoolean b) = ''boolean''"
| "typeof (JNumber n) = ''number''"
| "typeof (JString s) = ''string''"
| "typeof JFunction = ''function''"
| "typeof (JArray xs) = ''object''"
| "typeof (JObject fs) = ''object''"

text \<open>ToBoolean: what \<open>!v\<close> and \<open>v || w\<close> test.\<close>

fun truthy :: "jsval \<Rightarrow> bool" where
  "truthy JUndefined = False"
| "truthy JNull = False"
| "truthy (JBoolean b) = b"
| "truthy (JNumber n) = (n \<noteq> NaN \<and> n \<noteq> Finite 0)"
| "truthy (JString s) = (s \<noteq> [])"
| "truthy JFunction = True"
| "truthy (JArray xs) = True"
| "truthy (JObject fs) = True"

section \<open>Type definitions of the seal module\<close>

record Gps =
  latitude :: number
  longitude :: number
  accuracy :: number

record SealedData =
  sha512 :: string
  timestamp :: string
  gps :: "Gps option"
  sealed :: bool
  chainOfCustody :: string
  metadata :: "(string \<times> jsval) list option"
  authenticityScore :: "number option"
  tamperFlags :: "string list option"
  content :: "jsval option"

datatype operation_kind = SEAL_CREATE | SEAL_VERIFY | SEAL_REJECT

datatype result_kind = SUCCESS | FAILURE

record AuditLogEntry =
  operation :: operation_kind
  entry_timestamp :: string
  itemId :: "string option"
  entry_sha512 :: "string option"
  result :: result_kind
  entry_reason :: "string option"

record SealValidationResult =
  valid :: bool
  reason :: "string option"
  auditEntry :: "AuditLogEntry option"

subsection \<open>Errors\<close>

text \<open>
  A thrown value, with its message. \<open>DOMException\<close> is what a failed read of a file
  rejects with; \<open>RangeError\<close> is what \<open>toISOString\<close> throws on an invalid date;
  \<open>TypeError\<close> is what reading a property of \<open>null\<close> or \<open>undefined\<close> throws.
\<close>

datatype jserror =
    DOMException string
  | RangeError string
  | TypeError string
  | SealViolationError string
  | SealIntegrityError string

fun message :: "jserror \<Rightarrow> string" where
  "message (DOMException m) = m"
| "message (RangeError m) = m"
| "message (TypeError m) = m"
| "message (SealViolationError m) = m"
| "message (SealIntegrityError m) = m"

definition new_SealViolationError :: "string \<Rightarrow> jserror" where
  "new_SealViolationError m = SealViolationError (''SEAL VIOLATION: '' @ m)"

definition new_SealIntegrityError :: "string \<Rightarrow> jserror" where
  "new_SealIntegrityError m = SealIntegrityError (''SEAL INTEGRITY FAILURE: '' @ m)"

subsection \<open>Reading a property of a value of type any\<close>

text \<open>
  \<open>data.k\<close>, for the property names the module reads (\<open>sealed\<close>, \<open>sha512\<close>,
  \<open>timestamp\<close>, \<open>chainOfCustody\<close>). On \<open>null\<close> and on \<open>undefined\<close> the access
  throws a \<open>TypeError\<close> (the message is worded as V8 words it). On an object it gives
  the own property of that name, the first binding of the key in the list, and
  \<open>undefined\<close> when there is none; on an array, a function or any other primitive it
  gives \<open>undefined\<close>.
\<close>

definition cannotRead :: "string \<Rightarrow> string \<Rightarrow> string" where
  "cannotRead what k =
     ''Cannot read properties of '' @ what @ '' (reading '' @ [CHR 0x27] @ k @ [CHR 0x27] @ '')''"

fun getProp :: "jsval \<Rightarrow> string \<Rightarrow> jserror + jsval" where
  "getProp JUndefined k = Inl (TypeError (cannotRead ''undefined'' k))"
| "getProp JNull k = Inl (TypeError (cannotRead ''null'' k))"
| "getProp (JObject fs) k = Inr (case map_of fs k of None \<Rightarrow> JUndefined | Some v \<Rightarrow> v)"
| "getProp v k = Inr JUndefined"

text \<open>\<open>!data.k\<close>, and \<open>a || b\<close> on two such tests: \<open>b\<close> is evaluated only when \<open>a\<close> is false.\<close>

definition notProp :: "jsval \<Rightarrow> string \<Rightarrow> jserror + bool" where
  "notProp data k = (case getProp data k of Inl e \<Rightarrow> Inl e | Inr v \<Rightarrow> Inr (\<not> truthy v))"

definition orElse :: "jserror + bool \<Rightarrow> jserror + bool \<Rightarrow> jserror + bool" where
  "orElse a b = (case a of Inl e \<Rightarrow> Inl e | Inr x \<Rightarrow> if x then Inr True else b)"

section \<open>The platform and the mutable state\<close>

text \<open>
  The module calls the Web platform: \<open>crypto.subtle.digest\<close>, \<open>JSON.stringify\<close>,
  \<open>TextEncoder.encode\<close> and \<open>Date\<close>. They are parameters of the model.
  A digest is taken to succeed on every input (\<open>crypto.subtle\<close> is there).
  \<open>currentTimeISO p n\<close> is the string that the \<open>n\<close>-th evaluation of
  \<open>new Date().toISOString()\<close> returns, \<open>isoFormat p t\<close> the ISO string of a valid time
  value \<open>t\<close>, and \<open>invalidTimeMessage p\<close> the engine's message of the \<open>RangeError\<close>
  for an invalid one. \<open>JSON.stringify\<close> returns \<open>undefined\<close> (here \<open>None\<close>) for
  \<open>undefined\<close> and for a function.
\<close>

type_synonym byte = "8 word"

datatype algorithm = SHA_256 | SHA_512

record platform =
  subtle_digest :: "algorithm \<Rightarrow> byte list \<Rightarrow> byte list"
  JSON_stringify :: "jsval \<Rightarrow> string option"
  TextEncoder_encode :: "string \<Rightarrow> byte list"
  currentTimeISO :: "nat \<Rightarrow> string"
  isoFormat :: "int \<Rightarrow> string"
  invalidTimeMessage :: string

text \<open>
  The state the module mutates: the entries of the one \<open>sealAuditLog\<close>, the lines it
  prints on the console, and the number of times the clock has been read.
\<close>

record world =
  logs :: "AuditLogEntry list"
  console :: "AuditLogEntry list"
  ticks :: nat

text \<open>
  A computation that may throw: it returns the thrown error or a value, and the state.
  An \<open>async\<close> method is run to its end in one piece: what other calls do to the log
  between two of its \<open>await\<close>s is outside this model.
\<close>

type_synonym 'a io = "world \<Rightarrow> (jserror + 'a) \<times> world"

definition returnE :: "'a \<Rightarrow> 'a io" where
  "returnE x w = (Inr x, w)"

definition throwE :: "jserror \<Rightarrow> 'a io" where
  "throwE e w = (Inl e, w)"

definition bindE :: "'a io \<Rightarrow> ('a \<Rightarrow> 'b io) \<Rightarrow> 'b io" where
  "bindE m k w = (case m w of (Inl e, w') \<Rightarrow> (Inl e, w') | (Inr x, w') \<Rightarrow> k x w')"

definition catchE :: "'a io \<Rightarrow> (jserror \<Rightarrow> 'a io) \<Rightarrow> 'a io" where
  "catchE m h w = (case m w of (Inl e, w') \<Rightarrow> h e w' | (Inr x, w') \<Rightarrow> (Inr x, w'))"

text \<open>\<open>new Date().toISOString()\<close>: one reading of the clock.\<close>

definition new_Date_toISOString :: "platform \<Rightarrow> string io" where
  "new_Date_toISOString p w = (Inr (currentTimeISO p (ticks w)), w\<lparr>ticks := Suc (ticks w)\<rparr>)"

text \<open>
  \<open>new Date(t).toISOString()\<close> for a time value \<open>t\<close> in milliseconds: a time value
  beyond 8.64e15 ms either side of the epoch makes an invalid date, on which
  \<open>toISOString\<close> throws.
\<close>

definition maxTimeValue :: int where
  "maxTimeValue = 8640000000000000"

definition Date_toISOString :: "platform \<Rightarrow> int \<Rightarrow> jserror + string" where
  "Date_toISOString p t =
     (if \<bar>t\<bar> \<le> maxTimeValue then Inr (isoFormat p t)
      else Inl (RangeError (invalidTimeMessage p)))"

section \<open>SealAuditLog\<close>

text \<open>
  \<open>log\<close> pushes a copy of the entry whose timestamp is the entry's own, or the current
  time when that is empty (\<open>entry.timestamp || new Date().toISOString()\<close>), and prints
  the entry it was given.
\<close>

definition SealAuditLog_log :: "platform \<Rightarrow> AuditLogEntry \<Rightarrow> unit io" where
  "SealAuditLog_log p entry w =
     (if entry_timestamp entry \<noteq> [] then
        (Inr (), w\<lparr>logs := logs w @ [entry], console := console w @ [entry]\<rparr>)
      else
        (Inr (), w\<lparr>logs := logs w @ [entry\<lparr>entry_timestamp := currentTimeISO p (ticks w)\<rparr>],
                    console := console w @ [entry],
                    ticks := Suc (ticks w)\<rparr>))"

definition SealAuditLog_getLogs :: "world \<Rightarrow> AuditLogEntry list" where
  "SealAuditLog_getLogs w = logs w"

section \<open>Hexadecimal encoding of a digest\<close>

definition hexdigit :: "nat \<Rightarrow> char" where
  "hexdigit n = ''0123456789abcdef'' ! n"

text \<open>\<open>b.toString(16)\<close> for a non-negative integer \<open>b\<close>.\<close>

fun toString16 :: "nat \<Rightarrow> string" where
  "toString16 n = (if n < 16 then [hexdigit n] else toString16 (n div 16) @ [hexdigit (n mod 16)])"

definition padStart :: "nat \<Rightarrow> char \<Rightarrow> string \<Rightarrow> string" where
  "padStart n c s = replicate (n - length s) c @ s"

text \<open>\<open>hashArray.map(b => b.toString(16).padStart(2, '0')).join('')\<close>\<close>

definition hexString :: "byte list \<Rightarrow> string" where
  "hexString hashArray = concat (map (\<lambda>b. padStart 2 CHR ''0'' (toString16 (unat b))) hashArray)"

text \<open>\<open>toUpperCase\<close> on the characters a hex string is made of.\<close>

definition upperChar :: "char \<Rightarrow> char" where
  "upperChar c =
     (if of_char c \<ge> (97::nat) \<and> of_char c \<le> (122::nat) then char_of (of_char c - (32::nat)) else c)"

definition toUpperCase :: "string \<Rightarrow> string" where
  "toUpperCase s = map upperChar s"

section \<open>Gate 1: InputSealInterceptor\<close>

text \<open>
  A \<open>File\<close>: its attributes, and what \<open>await file.arrayBuffer()\<close> gives, the bytes
  or the error the read rejects with. \<open>lastModified\<close> is a \<open>long long\<close> of
  milliseconds.
\<close>

record File =
  file_name :: string
  file_type :: string
  file_size :: nat
  lastModified :: int
  arrayBuffer :: "jserror + byte list"

record GeolocationCoordinates =
  coords_latitude :: number
  coords_longitude :: number
  coords_accuracy :: number

record GeolocationPosition =
  coords :: GeolocationCoordinates

definition generateSHA512 :: "platform \<Rightarrow> File \<Rightarrow> string io" where
  "generateSHA512 p file =
     (case arrayBuffer file of
        Inl e \<Rightarrow> throwE e
      | Inr buffer \<Rightarrow> returnE (hexString (subtle_digest p SHA_512 buffer)))"

definition extractMetadata :: "platform \<Rightarrow> File \<Rightarrow> (string \<times> jsval) list io" where
  "extractMetadata p file =
     (case Date_toISOString p (lastModified file) of
        Inl e \<Rightarrow> throwE e
      | Inr isoText \<Rightarrow> returnE
          [(''name'', JString (file_name file)),
           (''type'', JString (file_type file)),
           (''size'', JNumber (Finite (real (file_size file)))),
           (''lastModified'', JString isoText)])"

definition authenticityCheck :: "File \<Rightarrow> number io" where
  "authenticityCheck file = returnE (Finite 95)"

definition tamperDetection :: "File \<Rightarrow> string list io" where
  "tamperDetection file = returnE []"

text \<open>The object \<open>{ sha512, timestamp, gps }\<close> that the custody signature is taken of.\<close>

definition gpsValue :: "Gps option \<Rightarrow> jsval" where
  "gpsValue g =
     (case g of
        None \<Rightarrow> JUndefined
      | Some c \<Rightarrow> JObject [(''latitude'', JNumber (latitude c)),
                            (''longitude'', JNumber (longitude c)),
                            (''accuracy'', JNumber (accuracy c))])"

definition stringifyOrEmpty :: "platform \<Rightarrow> jsval \<Rightarrow> string" where
  "stringifyOrEmpty p v = (case JSON_stringify p v of None \<Rightarrow> [] | Some s \<Rightarrow> s)"

definition custodySignature :: "platform \<Rightarrow> jsval \<Rightarrow> string" where
  "custodySignature p custody =
     take 16 (toUpperCase (hexString
       (subtle_digest p SHA_256 (TextEncoder_encode p (stringifyOrEmpty p custody)))))"

definition generateChainOfCustody :: "platform \<Rightarrow> string \<Rightarrow> string \<Rightarrow> Gps option \<Rightarrow> string io" where
  "generateChainOfCustody p sha ts g =
     returnE (custodySignature p
       (JObject [(''sha512'', JString sha), (''timestamp'', JString ts), (''gps'', gpsValue g)]))"

text \<open>The \<open>try\<close> block of \<open>sealFile\<close>, then the whole method with its \<open>catch\<close>.\<close>

definition sealFile_try :: "platform \<Rightarrow> File \<Rightarrow> GeolocationPosition option \<Rightarrow> SealedData io" where
  "sealFile_try p file geolocation =
     bindE (generateSHA512 p file) (\<lambda>sha.
     bindE (new_Date_toISOString p) (\<lambda>ts.
     let g = (case geolocation of
                None \<Rightarrow> None
              | Some pos \<Rightarrow> Some \<lparr>latitude = coords_latitude (coords pos),
                                   longitude = coords_longitude (coords pos),
                                   accuracy = coords_accuracy (coords pos)\<rparr>) in
     bindE (extractMetadata p file) (\<lambda>md.
     bindE (authenticityCheck file) (\<lambda>score.
     bindE (tamperDetection file) (\<lambda>flags.
     bindE (generateChainOfCustody p sha ts g) (\<lambda>custody.
     let sealedData = \<lparr>sha512 = sha, timestamp = ts, gps = g, sealed = True,
                        chainOfCustody = custody, metadata = Some md,
                        authenticityScore = Some score, tamperFlags = Some flags,
                        content = None\<rparr> in
     bindE (SealAuditLog_log p
              \<lparr>operation = SEAL_CREATE, entry_timestamp = ts, itemId = Some (file_name file),
               entry_sha512 = Some sha, result = SUCCESS, entry_reason = None\<rparr>) (\<lambda>_.
     returnE sealedData)))))))"

definition sealFile :: "platform \<Rightarrow> File \<Rightarrow> GeolocationPosition option \<Rightarrow> SealedData io" where
  "sealFile p file geolocation =
     catchE (sealFile_try p file geolocation) (\<lambda>error.
       bindE (new_Date_toISOString p) (\<lambda>now.
       bindE (SealAuditLog_log p
                \<lparr>operation = SEAL_CREATE, entry_timestamp = now, itemId = Some (file_name file),
                 entry_sha512 = None, result = FAILURE, entry_reason = Some (message error)\<rparr>) (\<lambda>_.
       throwE (new_SealViolationError (''Failed to seal file: '' @ message error)))))"

text \<open>
  \<open>validateSeal\<close> returns a result or throws what one of its property reads throws.
  The reads come after the first check, in the order of the source.
\<close>

definition validateSeal :: "jsval \<Rightarrow> jserror + SealValidationResult" where
  "validateSeal data =
     (if \<not> truthy data \<or> typeof data \<noteq> ''object'' then
        Inr \<lparr>valid = False, reason = Some ''Data is not an object'', auditEntry = None\<rparr>
      else
        case getProp data ''sealed'' of
          Inl e \<Rightarrow> Inl e
        | Inr sealedValue \<Rightarrow>
            if sealedValue \<noteq> JBoolean True then
              Inr \<lparr>valid = False, reason = Some ''Data is not marked as sealed'', auditEntry = None\<rparr>
            else
              case orElse (orElse (notProp data ''sha512'') (notProp data ''timestamp''))
                          (notProp data ''chainOfCustody'') of
                Inl e \<Rightarrow> Inl e
              | Inr missing \<Rightarrow>
                  if missing then
                    Inr \<lparr>valid = False,
                         reason = Some ''Missing required seal fields (sha512, timestamp, or chainOfCustody)'',
                         auditEntry = None\<rparr>
                  else Inr \<lparr>valid = True, reason = None, auditEntry = None\<rparr>)"

text \<open>A template literal prints an absent \<open>reason\<close> as \<open>undefined\<close>.\<close>

definition reasonText :: "string option \<Rightarrow> string" where
  "reasonText r = (case r of None \<Rightarrow> ''undefined'' | Some s \<Rightarrow> s)"

definition rejectUnsealed :: "platform \<Rightarrow> jsval \<Rightarrow> string \<Rightarrow> unit io" where
  "rejectUnsealed p data ctxt =
     (case validateSeal data of
        Inl e \<Rightarrow> throwE e
      | Inr validation \<Rightarrow>
          let msg = ''Unsealed data rejected at '' @ ctxt @ '': '' @ reasonText (reason validation) in
          bindE (new_Date_toISOString p) (\<lambda>now.
          bindE (SealAuditLog_log p
                   \<lparr>operation = SEAL_REJECT, entry_timestamp = now, itemId = None,
                    entry_sha512 = None, result = FAILURE, entry_reason = Some msg\<rparr>) (\<lambda>_.
          throwE (new_SealViolationError msg))))"

section \<open>Gate 2: InternalSealMiddleware\<close>

text \<open>
  On a \<open>SealedData\<close> the three required fields are strings, so \<open>!data.sha512\<close> holds
  exactly of the empty string, and \<open>data.sealed !== true\<close> exactly of \<open>false\<close>.
\<close>

definition verifySealIntegrity :: "SealedData \<Rightarrow> bool" where
  "verifySealIntegrity data =
     (if sha512 data = [] \<or> timestamp data = [] \<or> chainOfCustody data = [] then False
      else True)"

definition validateAndPass :: "platform \<Rightarrow> SealedData \<Rightarrow> string \<Rightarrow> string \<Rightarrow> SealedData io" where
  "validateAndPass p data fromModule toModule =
     (if sealed data \<noteq> True then
        bindE (new_Date_toISOString p) (\<lambda>now.
        bindE (SealAuditLog_log p
                 \<lparr>operation = SEAL_REJECT, entry_timestamp = now, itemId = None,
                  entry_sha512 = None, result = FAILURE,
                  entry_reason = Some (''Unsealed data rejected in transit from '' @ fromModule
                                        @ '' to '' @ toModule)\<rparr>) (\<lambda>_.
        throwE (new_SealViolationError
                  (''Unsealed data rejected in transit from '' @ fromModule @ '' to '' @ toModule))))
      else if \<not> verifySealIntegrity data then
        bindE (new_Date_toISOString p) (\<lambda>now.
        bindE (SealAuditLog_log p
                 \<lparr>operation = SEAL_VERIFY, entry_timestamp = now, itemId = None,
                  entry_sha512 = Some (sha512 data), result = FAILURE,
                  entry_reason = Some (''Seal integrity check failed from '' @ fromModule
                                        @ '' to '' @ toModule)\<rparr>) (\<lambda>_.
        throwE (new_SealIntegrityError
                  ''Seal integrity check failed - possible tampering detected'')))
      else
        bindE (new_Date_toISOString p) (\<lambda>now.
        bindE (SealAuditLog_log p
                 \<lparr>operation = SEAL_VERIFY, entry_timestamp = now, itemId = None,
                  entry_sha512 = Some (sha512 data), result = SUCCESS,
                  entry_reason = None\<rparr>) (\<lambda>_.
        returnE data)))"

section \<open>Gate 3: OutputSealEnforcer\<close>

definition sealForOutput_try :: "platform \<Rightarrow> jsval \<Rightarrow> string \<Rightarrow> SealedData io" where
  "sealForOutput_try p data destination =
     bindE (new_Date_toISOString p) (\<lambda>ts.
     let contentData = TextEncoder_encode p (stringifyOrEmpty p data);
         sha = hexString (subtle_digest p SHA_512 contentData);
         custody = custodySignature p
           (JObject [(''sha512'', JString sha), (''timestamp'', JString ts),
                     (''destination'', JString destination)]);
         sealedOutput = \<lparr>sha512 = sha, timestamp = ts, gps = None, sealed = True,
                          chainOfCustody = custody, metadata = None,
                          authenticityScore = None, tamperFlags = None,
                          content = Some data\<rparr> in
     bindE (SealAuditLog_log p
              \<lparr>operation = SEAL_CREATE, entry_timestamp = ts, itemId = None,
               entry_sha512 = Some sha, result = SUCCESS,
               entry_reason = Some (''Output sealed for '' @ destination)\<rparr>) (\<lambda>_.
     returnE sealedOutput))"

definition sealForOutput :: "platform \<Rightarrow> jsval \<Rightarrow> string \<Rightarrow> SealedData io" where
  "sealForOutput p data destination =
     catchE (sealForOutput_try p data destination) (\<lambda>error.
       bindE (new_Date_toISOString p) (\<lambda>now.
       bindE (SealAuditLog_log p
                \<lparr>operation = SEAL_CREATE, entry_timestamp = now, itemId = None,
                 entry_sha512 = None, result = FAILURE,
                 entry_reason = Some (''Failed to seal output for '' @ destination @ '': ''
                                       @ message error)\<rparr>) (\<lambda>_.
       throwE (new_SealViolationError (''Failed to seal output: '' @ message error)))))"

definition validateBeforeTransmission :: "platform \<Rightarrow> SealedData \<Rightarrow> string \<Rightarrow> unit io" where
  "validateBeforeTransmission p data destination =
     (if sealed data \<noteq> True then
        bindE (new_Date_toISOString p) (\<lambda>now.
        bindE (SealAuditLog_log p
                 \<lparr>operation = SEAL_REJECT, entry_timestamp = now, itemId = None,
                  entry_sha512 = None, result = FAILURE,
                  entry_reason = Some (''Attempted to send unsealed data to '' @ destination)\<rparr>) (\<lambda>_.
        throwE (new_SealViolationError
                  (''Cannot send unsealed data to '' @ destination
                   @ ''. All external transmissions must be sealed.''))))
      else
        bindE (new_Date_toISOString p) (\<lambda>now.
        SealAuditLog_log p
          \<lparr>operation = SEAL_VERIFY, entry_timestamp = now, itemId = None,
           entry_sha512 = Some (sha512 data), result = SUCCESS,
           entry_reason = Some (''Output validated for transmission to '' @ destination)\<rparr>))"

section \<open>Vocabulary of the properties\<close>

text \<open>The entry that \<open>log\<close> pushes for an entry it is given, in state \<open>w\<close>.\<close>

definition stored :: "platform \<Rightarrow> world \<Rightarrow> AuditLogEntry \<Rightarrow> AuditLogEntry" where
  "stored p w e =
     (if entry_timestamp e \<noteq> [] then e else e\<lparr>entry_timestamp := currentTimeISO p (ticks w)\<rparr>)"

text \<open>The \<open>gps\<close> that \<open>sealFile\<close> stores for a position, or for none.\<close>

definition sealedGps :: "GeolocationPosition option \<Rightarrow> Gps option" where
  "sealedGps geolocation =
     (case geolocation of
        None \<Rightarrow> None
      | Some pos \<Rightarrow> Some \<lparr>latitude = coords_latitude (coords pos),
                           longitude = coords_longitude (coords pos),
                           accuracy = coords_accuracy (coords pos)\<rparr>)"

text \<open>
  What the platform guarantees and the round trip rests on: SHA-512 gives 64 bytes,
  SHA-256 gives 32, and the ISO string of the current time is not empty.
\<close>

fun digestLength :: "algorithm \<Rightarrow> nat" where
  "digestLength SHA_256 = 32"
| "digestLength SHA_512 = 64"

definition conforming :: "platform \<Rightarrow> bool" where
  "conforming p =
     ((\<forall>alg bs. length (subtle_digest p alg bs) = digestLength alg)
      \<and> (\<forall>n. currentTimeISO p n \<noteq> []))"

text \<open>An object in the sense of \<open>validateSeal\<close>'s first check: an object or an array.\<close>

fun isObject :: "jsval \<Rightarrow> bool" where
  "isObject (JObject fs) = True"
| "isObject (JArray xs) = True"
| "isObject v = False"

text \<open>The own property \<open>k\<close> of a value, when it has one; \<open>hasProp\<close>: it is there.\<close>

fun ownProp :: "jsval \<Rightarrow> string \<Rightarrow> jsval option" where
  "ownProp (JObject fs) k = map_of fs k"
| "ownProp v k = None"

definition hasProp :: "jsval \<Rightarrow> string \<Rightarrow> bool" where
  "hasProp v k = (ownProp v k \<noteq> None)"

text \<open>The falsy values, listed.\<close>

definition falsy :: "jsval \<Rightarrow> bool" where
  "falsy v = (v = JUndefined \<or> v = JNull \<or> v = JBoolean False \<or> v = JNumber NaN
              \<or> v = JNumber (Finite 0) \<or> v = JString [])"

text \<open>The property \<open>k\<close> is missing, or it is there with a falsy value.\<close>

definition missingOrFalsy :: "jsval \<Rightarrow> string \<Rightarrow> bool" where
  "missingOrFalsy v k = (case ownProp v k of None \<Rightarrow> True | Some x \<Rightarrow> falsy x)"

section \<open>Consensus\<close>

text \<open>
  The repository describes the consensus of its analyzers in prose and diagrams only;
  no source file implements it. The definitions of this section follow the
  specification's section 4.3.
\<close>

text \<open>
  Modelled from the spec: Finding and Verdict (section 3), of which the source has no
  type. A finding's \<open>verdict_value\<close> is opaque to the aggregator.
\<close>

datatype verdict_status = ACCEPTED | FLAGGED | REJECTED

record 'v Finding =
  analyzer_id :: string
  claim_id :: string
  verdict_value :: 'v
  confidence :: real

record Verdict =
  verdict_claim_id :: string
  status :: verdict_status
  agreement_count :: nat
  total_count :: nat

text \<open>
  Modelled from the spec: the decision rule of the ConsensusAggregator (section 4.3,
  step 3), which no source file implements. The rules are tried in the order given.
\<close>

definition decide :: "nat \<Rightarrow> nat \<Rightarrow> verdict_status" where
  "decide agreementCount totalCount =
     (if agreementCount = totalCount \<and> 3 \<le> totalCount then ACCEPTED
      else if totalCount - 1 \<le> agreementCount \<and> 2 \<le> totalCount then FLAGGED
      else REJECTED)"

text \<open>
  Modelled from the spec: the group of the findings that agree with a given one
  (section 4.3, step 1), which no source file computes, for categorical values, where
  agreement is exact match.
\<close>

definition groupSize :: "'v Finding list \<Rightarrow> 'v Finding \<Rightarrow> nat" where
  "groupSize fs f = length (filter (\<lambda>g. verdict_value g = verdict_value f) fs)"

text \<open>
  Modelled from the spec: \<open>agreement_count\<close>, the size of the largest agreeing group
  (section 4.3, step 2), which no source file computes.
\<close>

definition largestGroup :: "'v Finding list \<Rightarrow> nat" where
  "largestGroup fs = foldr max (map (groupSize fs) fs) 0"

text \<open>
  Modelled from the spec: \<open>reconcile(claim_id, findings)\<close> (section 4.3), which no
  source file implements. Zero findings give no Verdict. \<open>supporting_findings\<close> is left
  out: findings carry no digest of their own here.
\<close>

definition reconcile :: "string \<Rightarrow> 'v Finding list \<Rightarrow> Verdict option" where
  "reconcile cid findings =
     (if findings = [] then None
      else Some \<lparr>verdict_claim_id = cid,
                 status = decide (largestGroup findings) (length findings),
                 agreement_count = largestGroup findings,
                 total_count = length findings\<rparr>)"

section \<open>Example inputs\<close>

text \<open>
  A platform to run the module on. Its digest is the input cut or zero-padded to the
  digest's size, and it prints a string in quotes and anything else as \<open>{}\<close>.
\<close>

definition examplePlatform :: platform where
  "examplePlatform =
     \<lparr>subtle_digest = (\<lambda>alg bs. take (digestLength alg) (bs @ replicate (digestLength alg) 0)),
      JSON_stringify = (\<lambda>v. case v of JUndefined \<Rightarrow> None | JFunction \<Rightarrow> None
                               | JString s \<Rightarrow> Some ([CHR 0x22] @ s @ [CHR 0x22])
                               | _ \<Rightarrow> Some ''{}''),
      TextEncoder_encode = map (\<lambda>c. of_nat (of_char c)),
      currentTimeISO = (\<lambda>n. ''2025-01-22T10:00:00.000Z''),
      isoFormat = (\<lambda>t. ''2025-01-20T08:30:00.000Z''),
      invalidTimeMessage = ''Invalid time value''\<rparr>"

definition emptyWorld :: world where
  "emptyWorld = \<lparr>logs = [], console = [], ticks = 0\<rparr>"

definition exampleFile :: File where
  "exampleFile =
     \<lparr>file_name = ''contract.pdf'', file_type = ''application/pdf'', file_size = 4,
      lastModified = 1737361800000, arrayBuffer = Inr [37, 80, 68, 70]\<rparr>"

text \<open>The same readable file, with a modification time one millisecond past the last valid date.\<close>

definition farFutureFile :: File where
  "farFutureFile = exampleFile\<lparr>lastModified := 8640000000000001\<rparr>"

definition unreadableFile :: File where
  "unreadableFile = exampleFile\<lparr>arrayBuffer := Inl (DOMException ''The file could not be read'')\<rparr>"

definition sealedEnvelope :: SealedData where
  "sealedEnvelope =
     \<lparr>sha512 = ''3a7bd3e2'', timestamp = ''2025-01-22T10:00:00.000Z'', gps = None,
      sealed = True, chainOfCustody = ''9F86D081884C7D65'', metadata = None,
      authenticityScore = None, tamperFlags = None,
      content = Some (JObject [(''report'', JString ''original'')])\<rparr>"

definition tamperedEnvelope :: SealedData where
  "tamperedEnvelope = sealedEnvelope\<lparr>content := Some (JObject [(''report'', JString ''tampered'')])\<rparr>"

definition unsealedEnvelope :: SealedData where
  "unsealedEnvelope = sealedEnvelope\<lparr>sealed := False\<rparr>"

text \<open>Sealed, carrying the bytes of a file as its content, and without a digest.\<close>

definition rawEvidenceEnvelope :: SealedData where
  "rawEvidenceEnvelope =
     sealedEnvelope\<lparr>sha512 := [],
       content := Some (JArray [JNumber (Finite 37), JNumber (Finite 80),
                                JNumber (Finite 68), JNumber (Finite 70)])\<rparr>"

definition emptyDigestPacket :: jsval where
  "emptyDigestPacket =
     JObject [(''sealed'', JBoolean True), (''sha512'', JString []),
              (''timestamp'', JString ''2025-01-22T10:00:00.000Z''),
              (''chainOfCustody'', JString ''9F86D081884C7D65'')]"

definition sealedPacket :: jsval where
  "sealedPacket =
     JObject [(''sealed'', JBoolean True), (''sha512'', JString ''3a7bd3e2''),
              (''timestamp'', JString ''2025-01-22T10:00:00.000Z''),
              (''chainOfCustody'', JString ''9F86D081884C7D65'')]"

definition createEntry :: AuditLogEntry where
  "createEntry =
     \<lparr>operation = SEAL_CREATE, entry_timestamp = ''2025-01-22T10:00:00.000Z'',
      itemId = Some ''contract.pdf'', entry_sha512 = Some ''3a7bd3e2'', result = SUCCESS,
      entry_reason = None\<rparr>"

text \<open>\<open>createEntry\<close> with another digest.\<close>

definition alteredEntry :: AuditLogEntry where
  "alteredEntry = createEntry\<lparr>entry_sha512 := Some ''ffffffff''\<rparr>"

definition verifyEntry :: AuditLogEntry where
  "verifyEntry =
     \<lparr>operation = SEAL_VERIFY, entry_timestamp = ''2025-01-22T10:00:01.000Z'',
      itemId = None, entry_sha512 = Some ''3a7bd3e2'', result = SUCCESS, entry_reason = None\<rparr>"

definition finding :: "string \<Rightarrow> string \<Rightarrow> string Finding" where
  "finding analyzer v =
     \<lparr>analyzer_id = analyzer, claim_id = ''c1'', verdict_value = v, confidence = 0.9\<rparr>"

section \<open>Basic facts\<close>

declare toString16.simps [simp del]

subsection \<open>The audit log and sequencing\<close>

lemma log_fst: "fst (SealAuditLog_log p e w) = Inr ()"
  by (simp add: SealAuditLog_log_def)

lemma log_logs: "logs (snd (SealAuditLog_log p e w)) = logs w @ [stored p w e]"
  by (simp add: SealAuditLog_log_def stored_def)

lemma stored_fields:
  "operation (stored p w e) = operation e" "itemId (stored p w e) = itemId e"
  "entry_sha512 (stored p w e) = entry_sha512 e" "result (stored p w e) = result e"
  "entry_reason (stored p w e) = entry_reason e"
  by (simp_all add: stored_def)

lemma bindE_clock: "bindE (new_Date_toISOString p) k w = k (currentTimeISO p (ticks w)) (w\<lparr>ticks := Suc (ticks w)\<rparr>)"
  by (simp add: bindE_def new_Date_toISOString_def)

lemma bindE_log: "bindE (SealAuditLog_log p e) k w = k () (snd (SealAuditLog_log p e w))"
  by (cases "SealAuditLog_log p e w") (use log_fst[of p e w] in \<open>simp add: bindE_def\<close>)

lemma bindE_returnE: "bindE (returnE x) k w = k x w"
  by (simp add: bindE_def returnE_def)

lemma bindE_throwE: "bindE (throwE e) k w = (Inl e, w)"
  by (simp add: bindE_def throwE_def)

subsection \<open>Hexadecimal strings and the platform\<close>

lemma toString16_nonempty: "toString16 n \<noteq> []"
  by (subst toString16.simps) simp

lemma padStart_nonempty: "s \<noteq> [] \<Longrightarrow> padStart n c s \<noteq> []"
  by (simp add: padStart_def)

lemma hexString_nonempty: "bs \<noteq> [] \<Longrightarrow> hexString bs \<noteq> []"
  by (cases bs) (simp_all add: hexString_def padStart_nonempty toString16_nonempty)

lemma custodySignature_nonempty:
  "subtle_digest p SHA_256 (TextEncoder_encode p (stringifyOrEmpty p v)) \<noteq> [] \<Longrightarrow>
   custodySignature p v \<noteq> []"
  using hexString_nonempty[of "subtle_digest p SHA_256 (TextEncoder_encode p (stringifyOrEmpty p v))"]
  by (simp add: custodySignature_def toUpperCase_def)

lemma conforming_digest: "conforming p \<Longrightarrow> subtle_digest p alg bs \<noteq> []"
proof -
  assume c: "conforming p"
  then have "length (subtle_digest p alg bs) = digestLength alg"
    by (simp add: conforming_def)
  moreover have "0 < digestLength alg" by (cases alg) simp_all
  ultimately show ?thesis by auto
qed

lemma conforming_clock: "conforming p \<Longrightarrow> currentTimeISO p n \<noteq> []"
  by (simp add: conforming_def)

lemma conforming_examplePlatform: "conforming examplePlatform"
  by (simp add: conforming_def examplePlatform_def min_def)

subsection \<open>The internal gate, branch by branch\<close>

lemma verifySealIntegrity_iff:
  "verifySealIntegrity d = (sha512 d \<noteq> [] \<and> timestamp d \<noteq> [] \<and> chainOfCustody d \<noteq> [])"
  by (simp add: verifySealIntegrity_def)

lemma validateAndPass_valid_eq:
  "sealed d \<Longrightarrow> verifySealIntegrity d \<Longrightarrow> validateAndPass p d f t w =
     (Inr d,
      snd (SealAuditLog_log p
             \<lparr>operation = SEAL_VERIFY, entry_timestamp = currentTimeISO p (ticks w), itemId = None,
              entry_sha512 = Some (sha512 d), result = SUCCESS, entry_reason = None\<rparr>
             (w\<lparr>ticks := Suc (ticks w)\<rparr>)))"
  by (simp add: validateAndPass_def bindE_clock bindE_log returnE_def)

lemma validateAndPass_integrity_eq:
  "sealed d \<Longrightarrow> \<not> verifySealIntegrity d \<Longrightarrow> validateAndPass p d f t w =
     (Inl (new_SealIntegrityError ''Seal integrity check failed - possible tampering detected''),
      snd (SealAuditLog_log p
             \<lparr>operation = SEAL_VERIFY, entry_timestamp = currentTimeISO p (ticks w), itemId = None,
              entry_sha512 = Some (sha512 d), result = FAILURE,
              entry_reason = Some (''Seal integrity check failed from '' @ f @ '' to '' @ t)\<rparr>
             (w\<lparr>ticks := Suc (ticks w)\<rparr>)))"
  by (simp add: validateAndPass_def bindE_clock bindE_log throwE_def)

lemma validateAndPass_valid_fst:
  "sealed d \<Longrightarrow> verifySealIntegrity d \<Longrightarrow> fst (validateAndPass p d f t w) = Inr d"
  by (simp add: validateAndPass_valid_eq)

lemma validateAndPass_valid_logs:
  "sealed d \<Longrightarrow> verifySealIntegrity d \<Longrightarrow>
     \<exists>e. logs (snd (validateAndPass p d f t w)) = logs w @ [e]
        \<and> operation e = SEAL_VERIFY \<and> result e = SUCCESS \<and> entry_sha512 e = Some (sha512 d)"
  by (simp add: validateAndPass_valid_eq log_logs stored_fields)

subsection \<open>sealFile, branch by branch\<close>

lemma sealFile_try_ok:
  assumes "arrayBuffer file = Inr bytes" and "\<bar>lastModified file\<bar> \<le> maxTimeValue"
  shows "sealFile_try p file geolocation w =
     (Inr \<lparr>sha512 = hexString (subtle_digest p SHA_512 bytes),
           timestamp = currentTimeISO p (ticks w),
           gps = sealedGps geolocation,
           sealed = True,
           chainOfCustody = custodySignature p
             (JObject [(''sha512'', JString (hexString (subtle_digest p SHA_512 bytes))),
                       (''timestamp'', JString (currentTimeISO p (ticks w))),
                       (''gps'', gpsValue (sealedGps geolocation))]),
           metadata = Some [(''name'', JString (file_name file)),
                            (''type'', JString (file_type file)),
                            (''size'', JNumber (Finite (real (file_size file)))),
                            (''lastModified'', JString (isoFormat p (lastModified file)))],
           authenticityScore = Some (Finite 95),
           tamperFlags = Some [],
           content = None\<rparr>,
      snd (SealAuditLog_log p
             \<lparr>operation = SEAL_CREATE, entry_timestamp = currentTimeISO p (ticks w),
              itemId = Some (file_name file),
              entry_sha512 = Some (hexString (subtle_digest p SHA_512 bytes)),
              result = SUCCESS, entry_reason = None\<rparr>
             (w\<lparr>ticks := Suc (ticks w)\<rparr>)))"
  using assms
  by (simp add: sealFile_try_def generateSHA512_def extractMetadata_def Date_toISOString_def
        authenticityCheck_def tamperDetection_def generateChainOfCustody_def sealedGps_def
        bindE_returnE bindE_clock bindE_log returnE_def Let_def)

lemma sealFile_try_unreadable:
  assumes "arrayBuffer file = Inl err"
  shows "sealFile_try p file geolocation w = (Inl err, w)"
  using assms by (simp add: sealFile_try_def generateSHA512_def bindE_throwE)

lemma sealFile_try_invalid_date:
  assumes "arrayBuffer file = Inr bytes" and "\<not> \<bar>lastModified file\<bar> \<le> maxTimeValue"
  shows "sealFile_try p file geolocation w =
           (Inl (RangeError (invalidTimeMessage p)), w\<lparr>ticks := Suc (ticks w)\<rparr>)"
  using assms
  by (simp add: sealFile_try_def generateSHA512_def extractMetadata_def Date_toISOString_def
        bindE_returnE bindE_clock bindE_throwE Let_def)

lemma sealFile_catch:
  assumes "sealFile_try p file geolocation w = (Inl err, w')"
  shows "sealFile p file geolocation w =
     (Inl (new_SealViolationError (''Failed to seal file: '' @ message err)),
      snd (SealAuditLog_log p
             \<lparr>operation = SEAL_CREATE, entry_timestamp = currentTimeISO p (ticks w'),
              itemId = Some (file_name file), entry_sha512 = None, result = FAILURE,
              entry_reason = Some (message err)\<rparr>
             (w'\<lparr>ticks := Suc (ticks w')\<rparr>)))"
  using assms by (simp add: sealFile_def catchE_def bindE_clock bindE_log throwE_def)

lemma sealFile_ok:
  assumes "arrayBuffer file = Inr bytes" and "\<bar>lastModified file\<bar> \<le> maxTimeValue"
  shows "sealFile p file geolocation w = sealFile_try p file geolocation w"
  using sealFile_try_ok[OF assms, of p geolocation w] by (simp add: sealFile_def catchE_def)

lemma sealFile_cases:
  obtains (ok) bytes where "arrayBuffer file = Inr bytes" "\<bar>lastModified file\<bar> \<le> maxTimeValue"
  | (unreadable) err where "arrayBuffer file = Inl err"
  | (invalid_date) bytes where "arrayBuffer file = Inr bytes" "\<not> \<bar>lastModified file\<bar> \<le> maxTimeValue"
  by (cases "arrayBuffer file") auto

lemma sealFile_fails_fst:
  assumes "sealFile_try p file geolocation w = (Inl err, w')"
  shows "fst (sealFile p file geolocation w)
           = Inl (SealViolationError (''SEAL VIOLATION: Failed to seal file: '' @ message err))"
  by (simp add: sealFile_catch[OF assms] new_SealViolationError_def)

lemma sealFile_fails_logs:
  assumes "sealFile_try p file geolocation w = (Inl err, w')" and "logs w' = logs w"
  shows "\<exists>e. logs (snd (sealFile p file geolocation w)) = logs w @ [e]
            \<and> operation e = SEAL_CREATE \<and> result e = FAILURE
            \<and> itemId e = Some (file_name file) \<and> entry_reason e = Some (message err)"
  using assms(2) by (simp add: sealFile_catch[OF assms(1)] log_logs stored_fields)

lemma sealFile_succeeds:
  assumes "arrayBuffer file = Inr bytes" and "\<bar>lastModified file\<bar> \<le> maxTimeValue"
  shows "\<exists>sd e. fst (sealFile p file geolocation w) = Inr sd
           \<and> sealed sd = True
           \<and> sha512 sd = hexString (subtle_digest p SHA_512 bytes)
           \<and> timestamp sd = currentTimeISO p (ticks w)
           \<and> chainOfCustody sd = custodySignature p
                (JObject [(''sha512'', JString (sha512 sd)), (''timestamp'', JString (timestamp sd)),
                          (''gps'', gpsValue (gps sd))])
           \<and> gps sd = sealedGps geolocation
           \<and> logs (snd (sealFile p file geolocation w)) = logs w @ [e]
           \<and> operation e = SEAL_CREATE \<and> result e = SUCCESS
           \<and> itemId e = Some (file_name file) \<and> entry_sha512 e = Some (sha512 sd)"
  by (simp add: sealFile_ok[OF assms] sealFile_try_ok[OF assms] log_logs stored_fields)

lemma sealFile_fails:
  assumes "sealFile_try p file geolocation w = (Inl err, w')" and "logs w' = logs w"
  shows "fst (sealFile p file geolocation w)
           = Inl (SealViolationError (''SEAL VIOLATION: Failed to seal file: '' @ message err))
         \<and> (\<exists>e. logs (snd (sealFile p file geolocation w)) = logs w @ [e]
                \<and> operation e = SEAL_CREATE \<and> result e = FAILURE
                \<and> itemId e = Some (file_name file) \<and> entry_reason e = Some (message err))"
  using sealFile_fails_fst[OF assms(1)] sealFile_fails_logs[OF assms] by simp

subsection \<open>The output gate, branch by branch\<close>

lemma validateBeforeTransmission_unsealed_eq:
  "sealed d \<noteq> True \<Longrightarrow> validateBeforeTransmission p d dest w =
     (Inl (new_SealViolationError (''Cannot send unsealed data to '' @ dest
             @ ''. All external transmissions must be sealed.'')),
      snd (SealAuditLog_log p
             \<lparr>operation = SEAL_REJECT, entry_timestamp = currentTimeISO p (ticks w), itemId = None,
              entry_sha512 = None, result = FAILURE,
              entry_reason = Some (''Attempted to send unsealed data to '' @ dest)\<rparr>
             (w\<lparr>ticks := Suc (ticks w)\<rparr>)))"
  by (simp add: validateBeforeTransmission_def bindE_clock bindE_log throwE_def)

lemma validateBeforeTransmission_sealed_eq:
  "sealed d \<Longrightarrow> validateBeforeTransmission p d dest w =
     SealAuditLog_log p
       \<lparr>operation = SEAL_VERIFY, entry_timestamp = currentTimeISO p (ticks w), itemId = None,
        entry_sha512 = Some (sha512 d), result = SUCCESS,
        entry_reason = Some (''Output validated for transmission to '' @ dest)\<rparr>
       (w\<lparr>ticks := Suc (ticks w)\<rparr>)"
  by (simp add: validateBeforeTransmission_def bindE_clock)

lemma sealForOutput_eq:
  "sealForOutput p data dest w =
     (Inr \<lparr>sha512 = hexString (subtle_digest p SHA_512 (TextEncoder_encode p (stringifyOrEmpty p data))),
           timestamp = currentTimeISO p (ticks w), gps = None, sealed = True,
           chainOfCustody = custodySignature p
             (JObject [(''sha512'', JString (hexString (subtle_digest p SHA_512
                           (TextEncoder_encode p (stringifyOrEmpty p data))))),
                       (''timestamp'', JString (currentTimeISO p (ticks w))),
                       (''destination'', JString dest)]),
           metadata = None, authenticityScore = None, tamperFlags = None,
           content = Some data\<rparr>,
      snd (SealAuditLog_log p
             \<lparr>operation = SEAL_CREATE, entry_timestamp = currentTimeISO p (ticks w), itemId = None,
              entry_sha512 = Some (hexString (subtle_digest p SHA_512
                                (TextEncoder_encode p (stringifyOrEmpty p data)))),
              result = SUCCESS, entry_reason = Some (''Output sealed for '' @ dest)\<rparr>
             (w\<lparr>ticks := Suc (ticks w)\<rparr>)))"
  by (simp add: sealForOutput_def sealForOutput_try_def catchE_def bindE_clock bindE_log
        returnE_def Let_def)

section \<open>Sealing and the internal gate\<close>

text \<open>
  C1 (round trip). On a conforming platform, whenever \<open>sealFile\<close> returns a
  \<open>SealedData\<close> for a file, with or without a position and in any state of the log,
  \<open>validateAndPass\<close> applied to that \<open>SealedData\<close> returns it and does not throw,
  whatever the two module names and whatever the state it runs in.
\<close>

theorem seal_then_verify_round_trip:
  assumes "conforming p"
    and "fst (sealFile p file geolocation w) = Inr sd"
  shows "fst (validateAndPass p sd fromModule toModule w') = Inr sd"
proof (cases rule: sealFile_cases[of "file"])
  case (ok bytes)
  have eq: "fst (sealFile p file geolocation w) = fst (sealFile_try p file geolocation w)"
    by (simp add: sealFile_ok[OF ok])
  have s: "sealed sd" and h: "sha512 sd = hexString (subtle_digest p SHA_512 bytes)"
    and t: "timestamp sd = currentTimeISO p (ticks w)"
    and c: "chainOfCustody sd = custodySignature p
             (JObject [(''sha512'', JString (hexString (subtle_digest p SHA_512 bytes))),
                       (''timestamp'', JString (currentTimeISO p (ticks w))),
                       (''gps'', gpsValue (sealedGps geolocation))])"
    using assms(2) eq by (auto simp add: sealFile_try_ok[OF ok])
  have "verifySealIntegrity sd"
    using assms(1)
    by (simp add: verifySealIntegrity_iff h t c hexString_nonempty conforming_digest
          conforming_clock custodySignature_nonempty)
  with s show ?thesis by (simp add: validateAndPass_valid_fst)
next
  case (unreadable err)
  then show ?thesis
    using assms(2) sealFile_fails_fst[OF sealFile_try_unreadable[OF unreadable], of p geolocation w]
    by simp
next
  case (invalid_date bytes)
  then show ?thesis
    using assms(2) sealFile_fails_fst[OF sealFile_try_invalid_date[OF invalid_date], of p geolocation w]
    by simp
qed

text \<open>
  The round trip on \<open>contract.pdf\<close>: \<open>sealFile\<close> returns, and the internal gate
  passes what it returned.
\<close>

theorem seal_then_verify_round_trip_witness:
  "conforming examplePlatform
   \<and> (\<exists>sd. fst (sealFile examplePlatform exampleFile None emptyWorld) = Inr sd
          \<and> fst (validateAndPass examplePlatform sd ''UploadModule'' ''ContradictionBrain''
                 (snd (sealFile examplePlatform exampleFile None emptyWorld))) = Inr sd)"
proof -
  have c: "conforming examplePlatform"
    by (rule conforming_examplePlatform)
  have r: "arrayBuffer exampleFile = Inr [37, 80, 68, 70]" "\<bar>lastModified exampleFile\<bar> \<le> maxTimeValue"
    by (simp_all add: exampleFile_def maxTimeValue_def)
  obtain sd where sd: "fst (sealFile examplePlatform exampleFile None emptyWorld) = Inr sd"
    using sealFile_succeeds[OF r, of examplePlatform None emptyWorld] by blast
  from seal_then_verify_round_trip[OF c sd] c sd show ?thesis by blast
qed

section \<open>Tampering with a sealed payload\<close>

lemma examplePlatform_digest_differs:
  "subtle_digest examplePlatform SHA_512
      (TextEncoder_encode examplePlatform (stringifyOrEmpty examplePlatform (JString ''tampered'')))
   \<noteq> subtle_digest examplePlatform SHA_512
      (TextEncoder_encode examplePlatform (stringifyOrEmpty examplePlatform (JString ''original'')))"
  by (simp add: examplePlatform_def stringifyOrEmpty_def)

lemma verifySealIntegrity_ignores_payload:
  "verifySealIntegrity (d\<lparr>content := c\<rparr>) = verifySealIntegrity d"
  by (simp add: verifySealIntegrity_iff)

text \<open>
  C2 (tamper detection) does not hold of the code: \<open>verifySealIntegrity\<close> tests the
  three fields for emptiness and recomputes nothing. Here the output gate seals the
  payload \<open>original\<close>, the payload of the envelope is then replaced by \<open>tampered\<close>,
  whose digest differs from the one stored, and \<open>validateAndPass\<close> still returns the
  envelope and logs \<open>SEAL_VERIFY\<close> with \<open>SUCCESS\<close>.
\<close>

theorem verify_passes_tampered_payload:
  "\<exists>sd. fst (sealForOutput examplePlatform (JString ''original'') ''OpenAI API'' emptyWorld) = Inr sd
      \<and> content sd = Some (JString ''original'')
      \<and> sha512 sd = hexString (subtle_digest examplePlatform SHA_512
           (TextEncoder_encode examplePlatform (stringifyOrEmpty examplePlatform (JString ''original''))))
      \<and> subtle_digest examplePlatform SHA_512
           (TextEncoder_encode examplePlatform (stringifyOrEmpty examplePlatform (JString ''tampered'')))
         \<noteq> subtle_digest examplePlatform SHA_512
           (TextEncoder_encode examplePlatform (stringifyOrEmpty examplePlatform (JString ''original'')))
      \<and> fst (validateAndPass examplePlatform (sd\<lparr>content := Some (JString ''tampered'')\<rparr>)
                ''OutputModule'' ''Transmitter'' emptyWorld)
          = Inr (sd\<lparr>content := Some (JString ''tampered'')\<rparr>)
      \<and> map result (logs (snd (validateAndPass examplePlatform
                (sd\<lparr>content := Some (JString ''tampered'')\<rparr>) ''OutputModule'' ''Transmitter''
                emptyWorld))) = [SUCCESS]"
proof -
  let ?sd = "\<lparr>sha512 = hexString (subtle_digest examplePlatform SHA_512
                 (TextEncoder_encode examplePlatform (stringifyOrEmpty examplePlatform (JString ''original'')))),
           timestamp = currentTimeISO examplePlatform (ticks emptyWorld), gps = None, sealed = True,
           chainOfCustody = custodySignature examplePlatform
             (JObject [(''sha512'', JString (hexString (subtle_digest examplePlatform SHA_512
                           (TextEncoder_encode examplePlatform (stringifyOrEmpty examplePlatform (JString ''original'')))))),
                       (''timestamp'', JString (currentTimeISO examplePlatform (ticks emptyWorld))),
                       (''destination'', JString ''OpenAI API'')]),
           metadata = None, authenticityScore = None, tamperFlags = None,
           content = Some (JString ''original'')\<rparr>"
  have 1: "fst (sealForOutput examplePlatform (JString ''original'') ''OpenAI API'' emptyWorld) = Inr ?sd"
    by (simp add: sealForOutput_eq)
  have v: "verifySealIntegrity (?sd\<lparr>content := Some (JString ''tampered'')\<rparr>)"
    by (simp add: verifySealIntegrity_iff hexString_nonempty custodySignature_nonempty
          conforming_digest[OF conforming_examplePlatform]
          conforming_clock[OF conforming_examplePlatform])
  have s: "sealed (?sd\<lparr>content := Some (JString ''tampered'')\<rparr>)" by simp
  have 2: "fst (validateAndPass examplePlatform (?sd\<lparr>content := Some (JString ''tampered'')\<rparr>)
                ''OutputModule'' ''Transmitter'' emptyWorld)
          = Inr (?sd\<lparr>content := Some (JString ''tampered'')\<rparr>)"
    by (rule validateAndPass_valid_fst[OF s v])
  have 3: "map result (logs (snd (validateAndPass examplePlatform
                (?sd\<lparr>content := Some (JString ''tampered'')\<rparr>) ''OutputModule'' ''Transmitter''
                emptyWorld))) = [SUCCESS]"
    using validateAndPass_valid_logs[OF s v, of examplePlatform "''OutputModule''" "''Transmitter''" emptyWorld]
    by (auto simp add: emptyWorld_def)
  show ?thesis
    using 1 2 3 examplePlatform_digest_differs by (intro exI[of _ ?sd]) simp
qed

section \<open>The consensus rule\<close>

lemma foldr_max_upper: "(\<And>x. x \<in> set xs \<Longrightarrow> x \<le> n) \<Longrightarrow> foldr max xs 0 \<le> (n::nat)"
  by (induction xs) auto

lemma foldr_max_lower: "x \<in> set xs \<Longrightarrow> x \<le> foldr max xs (0::nat)"
  by (induction xs) auto

lemma groupSize_le: "groupSize fs f \<le> length fs"
  by (simp add: groupSize_def)

lemma groupSize_pos: "f \<in> set fs \<Longrightarrow> 1 \<le> groupSize fs f"
proof -
  assume "f \<in> set fs"
  then have "filter (\<lambda>g. verdict_value g = verdict_value f) fs \<noteq> []"
    by (auto simp add: filter_empty_conv)
  then show ?thesis
    by (cases "filter (\<lambda>g. verdict_value g = verdict_value f) fs") (simp_all add: groupSize_def)
qed

lemma largestGroup_le: "largestGroup fs \<le> length fs"
  unfolding largestGroup_def by (rule foldr_max_upper) (auto simp add: groupSize_le)

lemma largestGroup_pos: "fs \<noteq> [] \<Longrightarrow> 1 \<le> largestGroup fs"
proof -
  assume "fs \<noteq> []"
  then obtain f where f: "f \<in> set fs" by (cases fs) auto
  have "groupSize fs f \<le> largestGroup fs"
    unfolding largestGroup_def using f by (intro foldr_max_lower) simp
  with groupSize_pos[OF f] show ?thesis by simp
qed

lemma Verdict_eqI:
  "verdict_claim_id v = c \<Longrightarrow> status v = s \<Longrightarrow> agreement_count v = a \<Longrightarrow> total_count v = n \<Longrightarrow>
     (v::Verdict) = \<lparr>verdict_claim_id = c, status = s, agreement_count = a, total_count = n\<rparr>"
  by (cases v) simp

text \<open>
  C3 (consensus rule). \<open>reconcile\<close> gives no Verdict for zero findings. For every
  claim id and every non-empty list of findings it gives a Verdict whose
  \<open>total_count\<close> is the number of findings, whose \<open>agreement_count\<close> is the size of
  the largest agreeing group (at least 1, at most \<open>total_count\<close>), and whose status
  is a function of the two counts: \<open>ACCEPTED\<close> exactly when all agree and there are at
  least three; \<open>FLAGGED\<close> exactly when at most one dissents, there are at least two,
  and the Verdict is not \<open>ACCEPTED\<close>; \<open>REJECTED\<close> exactly when two or more dissent
  or there is at most one finding. A single finding gives \<open>REJECTED\<close>.
\<close>

theorem reconcile_consensus_rule:
  "(findings = [] \<longrightarrow> reconcile cid findings = None)
   \<and> (findings \<noteq> [] \<longrightarrow>
        (\<exists>v. reconcile cid findings = Some v
           \<and> verdict_claim_id v = cid
           \<and> total_count v = length findings
           \<and> agreement_count v = largestGroup findings
           \<and> 1 \<le> agreement_count v \<and> agreement_count v \<le> total_count v
           \<and> (status v = ACCEPTED) = (agreement_count v = total_count v \<and> 3 \<le> total_count v)
           \<and> (status v = FLAGGED)
               = (total_count v - 1 \<le> agreement_count v \<and> 2 \<le> total_count v
                  \<and> \<not> (agreement_count v = total_count v \<and> 3 \<le> total_count v))
           \<and> (status v = REJECTED) = (agreement_count v + 2 \<le> total_count v \<or> total_count v \<le> 1)
           \<and> (length findings = 1 \<longrightarrow> status v = REJECTED)))"
proof (intro conjI impI)
  assume "findings = []"
  then show "reconcile cid findings = None" by (simp add: reconcile_def)
next
  assume ne: "findings \<noteq> []"
  let ?a = "largestGroup findings" and ?n = "length findings"
  have b: "1 \<le> ?a" "?a \<le> ?n"
    using largestGroup_pos[OF ne] largestGroup_le[of findings] by simp_all
  have acc: "(decide ?a ?n = ACCEPTED) = (?a = ?n \<and> 3 \<le> ?n)"
    by (simp add: decide_def)
  have flg: "(decide ?a ?n = FLAGGED) = (?n - 1 \<le> ?a \<and> 2 \<le> ?n \<and> \<not> (?a = ?n \<and> 3 \<le> ?n))"
    by (auto simp add: decide_def)
  have rej: "(decide ?a ?n = REJECTED) = (?a + 2 \<le> ?n \<or> ?n \<le> 1)"
    using b by (auto simp add: decide_def)
  have one: "?n = 1 \<longrightarrow> decide ?a ?n = REJECTED"
    by (simp add: decide_def)
  show "\<exists>v. reconcile cid findings = Some v
           \<and> verdict_claim_id v = cid
           \<and> total_count v = length findings
           \<and> agreement_count v = largestGroup findings
           \<and> 1 \<le> agreement_count v \<and> agreement_count v \<le> total_count v
           \<and> (status v = ACCEPTED) = (agreement_count v = total_count v \<and> 3 \<le> total_count v)
           \<and> (status v = FLAGGED)
               = (total_count v - 1 \<le> agreement_count v \<and> 2 \<le> total_count v
                  \<and> \<not> (agreement_count v = total_count v \<and> 3 \<le> total_count v))
           \<and> (status v = REJECTED) = (agreement_count v + 2 \<le> total_count v \<or> total_count v \<le> 1)
           \<and> (length findings = 1 \<longrightarrow> status v = REJECTED)"
    using ne b acc flg rej one by (simp add: reconcile_def)
qed

text \<open>
  The rule on the specification's scenario (two analyzers say \<open>authentic\<close>, one says
  \<open>tampered\<close>) and on its table: three agree, none agree, two of two agree, one alone.
\<close>

theorem reconcile_consensus_rule_witness:
  "reconcile ''c1'' ([] :: string Finding list) = None
   \<and> reconcile ''c1'' [finding ''contradiction'' ''authentic'', finding ''behavioral'' ''authentic'',
                       finding ''forensic'' ''tampered'']
       = Some \<lparr>verdict_claim_id = ''c1'', status = FLAGGED, agreement_count = 2, total_count = 3\<rparr>
   \<and> reconcile ''c1'' [finding ''contradiction'' ''authentic'', finding ''behavioral'' ''authentic'',
                       finding ''forensic'' ''authentic'']
       = Some \<lparr>verdict_claim_id = ''c1'', status = ACCEPTED, agreement_count = 3, total_count = 3\<rparr>
   \<and> reconcile ''c1'' [finding ''contradiction'' ''authentic'', finding ''behavioral'' ''forged'',
                       finding ''forensic'' ''tampered'']
       = Some \<lparr>verdict_claim_id = ''c1'', status = REJECTED, agreement_count = 1, total_count = 3\<rparr>
   \<and> reconcile ''c1'' [finding ''contradiction'' ''authentic'', finding ''behavioral'' ''authentic'']
       = Some \<lparr>verdict_claim_id = ''c1'', status = FLAGGED, agreement_count = 2, total_count = 2\<rparr>
   \<and> reconcile ''c1'' [finding ''contradiction'' ''authentic'']
       = Some \<lparr>verdict_claim_id = ''c1'', status = REJECTED, agreement_count = 1, total_count = 1\<rparr>"
proof -
  have r: "reconcile ''c1'' fs
             = Some \<lparr>verdict_claim_id = ''c1'', status = s, agreement_count = a, total_count = n\<rparr>"
    if "fs \<noteq> []" and "largestGroup fs = a" and "length fs = n"
      and "s = (if a = n \<and> 3 \<le> n then ACCEPTED
                else if n - 1 \<le> a \<and> 2 \<le> n then FLAGGED else REJECTED)"
    for fs :: "string Finding list" and s a n
  proof -
    from reconcile_consensus_rule[of fs "''c1''"] that(1)
    obtain v where v: "reconcile ''c1'' fs = Some v" "verdict_claim_id v = ''c1''"
      "total_count v = length fs" "agreement_count v = largestGroup fs"
      "(status v = ACCEPTED) = (agreement_count v = total_count v \<and> 3 \<le> total_count v)"
      "(status v = FLAGGED)
         = (total_count v - 1 \<le> agreement_count v \<and> 2 \<le> total_count v
            \<and> \<not> (agreement_count v = total_count v \<and> 3 \<le> total_count v))"
      by blast
    have "status v = s"
      using v(3-6) that(2-4) by (cases "status v") (simp_all split: if_splits)
    with v that show ?thesis by (simp add: Verdict_eqI)
  qed
  have 0: "reconcile ''c1'' ([] :: string Finding list) = None"
    using reconcile_consensus_rule[of "[] :: string Finding list" "''c1''"] by blast
  have 1: "reconcile ''c1'' [finding ''contradiction'' ''authentic'', finding ''behavioral'' ''authentic'',
                       finding ''forensic'' ''tampered'']
       = Some \<lparr>verdict_claim_id = ''c1'', status = FLAGGED, agreement_count = 2, total_count = 3\<rparr>"
    by (rule r) (simp_all add: largestGroup_def groupSize_def finding_def)
  have 2: "reconcile ''c1'' [finding ''contradiction'' ''authentic'', finding ''behavioral'' ''authentic'',
                       finding ''forensic'' ''authentic'']
       = Some \<lparr>verdict_claim_id = ''c1'', status = ACCEPTED, agreement_count = 3, total_count = 3\<rparr>"
    by (rule r) (simp_all add: largestGroup_def groupSize_def finding_def)
  have 3: "reconcile ''c1'' [finding ''contradiction'' ''authentic'', finding ''behavioral'' ''forged'',
                       finding ''forensic'' ''tampered'']
       = Some \<lparr>verdict_claim_id = ''c1'', status = REJECTED, agreement_count = 1, total_count = 3\<rparr>"
    by (rule r) (simp_all add: largestGroup_def groupSize_def finding_def)
  have 4: "reconcile ''c1'' [finding ''contradiction'' ''authentic'', finding ''behavioral'' ''authentic'']
       = Some \<lparr>verdict_claim_id = ''c1'', status = FLAGGED, agreement_count = 2, total_count = 2\<rparr>"
    by (rule r) (simp_all add: largestGroup_def groupSize_def finding_def)
  have 5: "reconcile ''c1'' [finding ''contradiction'' ''authentic'']
       = Some \<lparr>verdict_claim_id = ''c1'', status = REJECTED, agreement_count = 1, total_count = 1\<rparr>"
    by (rule r) (simp_all add: largestGroup_def groupSize_def finding_def)
  from 0 1 2 3 4 5 show ?thesis by blast
qed

text \<open>
  Two findings that disagree: the largest group has one member, one is \<open>total_count - 1\<close>,
  and the rule gives \<open>FLAGGED\<close>.
\<close>

lemma reconcile_two_disagreeing:
  "verdict_value f \<noteq> verdict_value g \<Longrightarrow>
     reconcile cid [f, g]
       = Some \<lparr>verdict_claim_id = cid, status = FLAGGED, agreement_count = 1, total_count = 2\<rparr>"
  by (simp add: reconcile_def largestGroup_def groupSize_def decide_def)

section \<open>The audit log\<close>

text \<open>
  C4 (hash chain), as the code has it. The audit log is a plain list: \<open>log\<close> appends
  one entry after the entries already there, which stay as they are; the appended entry is
  the entry given, with its timestamp set to the current time when it was empty; and it
  is the same whatever the earlier entries are. No entry holds a digest of another.
\<close>

theorem audit_log_is_plain_append:
  "SealAuditLog_getLogs (snd (SealAuditLog_log p e w)) = SealAuditLog_getLogs w @ [stored p w e]
   \<and> stored p w e
       = e\<lparr>entry_timestamp := (if entry_timestamp e \<noteq> [] then entry_timestamp e
                                else currentTimeISO p (ticks w))\<rparr>
   \<and> last (SealAuditLog_getLogs (snd (SealAuditLog_log p e (w\<lparr>logs := history\<rparr>))))
       = last (SealAuditLog_getLogs (snd (SealAuditLog_log p e w)))"
  by (simp add: SealAuditLog_getLogs_def log_logs stored_def)

text \<open>
  C4 as stated fails. Two entries are logged; the first is then altered in the stored
  list. The second entry is untouched, and the altered list is exactly the list that
  \<open>log\<close> itself produces when it is given the altered entry first: nothing stored
  tells the two histories apart.
\<close>

theorem altered_history_goes_unnoticed:
  "alteredEntry \<noteq> createEntry
   \<and> SealAuditLog_getLogs (snd (SealAuditLog_log examplePlatform verifyEntry
        (snd (SealAuditLog_log examplePlatform createEntry emptyWorld))))
       = [createEntry, verifyEntry]
   \<and> [createEntry, verifyEntry][0 := alteredEntry]
       = SealAuditLog_getLogs (snd (SealAuditLog_log examplePlatform verifyEntry
           (snd (SealAuditLog_log examplePlatform alteredEntry emptyWorld))))"
  by (simp add: SealAuditLog_getLogs_def log_logs stored_def alteredEntry_def createEntry_def
        verifyEntry_def emptyWorld_def)

section \<open>Rejection at the gates\<close>

text \<open>
  C5 (internal gate rejection). For every packet whose \<open>sealed\<close> is not \<open>true\<close>,
  \<open>validateAndPass\<close> throws a \<open>SealViolationError\<close> that names the two modules, and
  the audit log grows by exactly one entry, a \<open>SEAL_REJECT\<close> with result \<open>FAILURE\<close>
  and the same reason.
\<close>

theorem validateAndPass_rejects_unsealed:
  assumes "sealed d \<noteq> True"
  shows "fst (validateAndPass p d fromModule toModule w) =
           Inl (SealViolationError (''SEAL VIOLATION: Unsealed data rejected in transit from ''
                                     @ fromModule @ '' to '' @ toModule))
         \<and> (\<exists>e. logs (snd (validateAndPass p d fromModule toModule w)) = logs w @ [e]
                \<and> operation e = SEAL_REJECT \<and> result e = FAILURE
                \<and> entry_reason e = Some (''Unsealed data rejected in transit from ''
                                     @ fromModule @ '' to '' @ toModule))"
  using assms
  by (simp add: validateAndPass_def bindE_clock bindE_log throwE_def new_SealViolationError_def
        log_logs stored_fields)

text \<open>The internal gate on an unsealed envelope, from an empty log.\<close>

theorem validateAndPass_rejects_unsealed_witness:
  "sealed unsealedEnvelope \<noteq> True
   \<and> fst (validateAndPass examplePlatform unsealedEnvelope ''UploadModule'' ''ContradictionBrain'' emptyWorld)
       = Inl (SealViolationError
               ''SEAL VIOLATION: Unsealed data rejected in transit from UploadModule to ContradictionBrain'')
   \<and> (\<exists>e. logs (snd (validateAndPass examplePlatform unsealedEnvelope
                        ''UploadModule'' ''ContradictionBrain'' emptyWorld)) = [e]
          \<and> operation e = SEAL_REJECT \<and> result e = FAILURE)"
proof -
  have u: "sealed unsealedEnvelope \<noteq> True"
    by (simp add: unsealedEnvelope_def)
  from validateAndPass_rejects_unsealed[OF u, of examplePlatform "''UploadModule''" "''ContradictionBrain''" emptyWorld] u
  show ?thesis by (auto simp add: emptyWorld_def)
qed

text \<open>
  C6 (output gate rejection). An envelope with \<open>sealed = false\<close> makes
  \<open>validateBeforeTransmission\<close> throw a \<open>SealViolationError\<close>; the audit log grows by
  exactly one entry, a \<open>SEAL_REJECT\<close> with result \<open>FAILURE\<close>; and whatever the caller
  sequences after the check, the transmission, is not run: the error and the state of
  the check are the outcome of the whole.
\<close>

theorem output_gate_rejects_unsealed:
  assumes "sealed d = False"
  shows "fst (validateBeforeTransmission p d destination w) =
           Inl (SealViolationError (''SEAL VIOLATION: Cannot send unsealed data to '' @ destination
                                     @ ''. All external transmissions must be sealed.''))
         \<and> (\<exists>e. logs (snd (validateBeforeTransmission p d destination w)) = logs w @ [e]
                \<and> operation e = SEAL_REJECT \<and> result e = FAILURE
                \<and> entry_reason e = Some (''Attempted to send unsealed data to '' @ destination))
         \<and> (\<forall>transmit :: unit \<Rightarrow> 'a io.
               bindE (validateBeforeTransmission p d destination) transmit w
                 = (Inl (SealViolationError (''SEAL VIOLATION: Cannot send unsealed data to ''
                            @ destination @ ''. All external transmissions must be sealed.'')),
                    snd (validateBeforeTransmission p d destination w)))"
  using assms
  by (simp add: validateBeforeTransmission_unsealed_eq new_SealViolationError_def log_logs
        stored_fields bindE_def)

text \<open>
  The output gate on an unsealed envelope, from an empty log, followed by a step that
  would write to the log.
\<close>

theorem output_gate_rejects_unsealed_witness:
  "sealed unsealedEnvelope = False
   \<and> fst (validateBeforeTransmission examplePlatform unsealedEnvelope ''OpenAI API'' emptyWorld)
       = Inl (SealViolationError
               ''SEAL VIOLATION: Cannot send unsealed data to OpenAI API. All external transmissions must be sealed.'')
   \<and> (\<exists>e. logs (snd (validateBeforeTransmission examplePlatform unsealedEnvelope ''OpenAI API'' emptyWorld)) = [e]
          \<and> operation e = SEAL_REJECT \<and> result e = FAILURE)
   \<and> fst (bindE (validateBeforeTransmission examplePlatform unsealedEnvelope ''OpenAI API'')
              (\<lambda>_. SealAuditLog_log examplePlatform createEntry) emptyWorld)
       = Inl (SealViolationError
               ''SEAL VIOLATION: Cannot send unsealed data to OpenAI API. All external transmissions must be sealed.'')"
proof -
  have u: "sealed unsealedEnvelope = False"
    by (simp add: unsealedEnvelope_def)
  from output_gate_rejects_unsealed[OF u, of examplePlatform "''OpenAI API''" emptyWorld,
      where 'a = unit] u
  show ?thesis by (auto simp add: emptyWorld_def)
qed

section \<open>What the output gate lets through\<close>

text \<open>
  C7 (raw evidence never crosses the output boundary), as the code has it.
  \<open>validateBeforeTransmission\<close> returns normally exactly when \<open>sealed\<close> is \<open>true\<close>.
  Its outcome is the same whatever the audit log holds, so whether or not the internal
  gate has admitted the envelope, and the same whatever the envelope's content is.
\<close>

theorem output_gate_checks_flag_only:
  "(fst (validateBeforeTransmission p d destination w) = Inr ()) = (sealed d = True)
   \<and> fst (validateBeforeTransmission p d destination (w\<lparr>logs := history\<rparr>))
       = fst (validateBeforeTransmission p d destination w)
   \<and> fst (validateBeforeTransmission p (d\<lparr>content := anyContent\<rparr>) destination w)
       = fst (validateBeforeTransmission p d destination w)"
  by (cases "sealed d")
    (simp_all add: validateBeforeTransmission_unsealed_eq validateBeforeTransmission_sealed_eq
      log_fst)

text \<open>
  C7 as stated fails. The envelope below is sealed, carries the bytes of a file as its
  content and has an empty digest. No gate has seen it, the internal gate throws on it,
  and the output gate's check passes it.
\<close>

theorem output_gate_admits_raw_evidence:
  "sealed rawEvidenceEnvelope = True
   \<and> content rawEvidenceEnvelope
       = Some (JArray [JNumber (Finite 37), JNumber (Finite 80), JNumber (Finite 68), JNumber (Finite 70)])
   \<and> logs emptyWorld = []
   \<and> fst (validateAndPass examplePlatform rawEvidenceEnvelope ''UploadModule'' ''ContradictionBrain'' emptyWorld)
       = Inl (SealIntegrityError ''SEAL INTEGRITY FAILURE: Seal integrity check failed - possible tampering detected'')
   \<and> fst (validateBeforeTransmission examplePlatform rawEvidenceEnvelope ''OpenAI API'' emptyWorld) = Inr ()"
  by (simp add: rawEvidenceEnvelope_def sealedEnvelope_def emptyWorld_def
        validateAndPass_integrity_eq verifySealIntegrity_iff new_SealIntegrityError_def
        validateBeforeTransmission_sealed_eq log_fst)

section \<open>The postcondition of sealFile\<close>

text \<open>
  C8 (seal creation), as the code has it. For a file whose bytes can be read and whose
  \<open>lastModified\<close> is a valid time value, \<open>sealFile\<close> returns a \<open>SealedData\<close> with
  \<open>sealed = true\<close>, the digest of the bytes, the current time, the custody signature of
  the three, and the position given or none; and the audit log grows by exactly one
  entry, a \<open>SEAL_CREATE\<close> with result \<open>SUCCESS\<close>. For a file that cannot be read, and
  for a readable file whose \<open>lastModified\<close> is not a valid time value, it throws a
  \<open>SealViolationError\<close> with the message of the cause, and the audit log grows by
  exactly one entry, a \<open>SEAL_CREATE\<close> with result \<open>FAILURE\<close>.
\<close>

theorem sealFile_postcondition:
  "(arrayBuffer file = Inr bytes \<and> \<bar>lastModified file\<bar> \<le> maxTimeValue \<longrightarrow>
      (\<exists>sd e. fst (sealFile p file geolocation w) = Inr sd
           \<and> sealed sd = True
           \<and> sha512 sd = hexString (subtle_digest p SHA_512 bytes)
           \<and> timestamp sd = currentTimeISO p (ticks w)
           \<and> chainOfCustody sd = custodySignature p
                (JObject [(''sha512'', JString (sha512 sd)), (''timestamp'', JString (timestamp sd)),
                          (''gps'', gpsValue (gps sd))])
           \<and> gps sd = sealedGps geolocation
           \<and> logs (snd (sealFile p file geolocation w)) = logs w @ [e]
           \<and> operation e = SEAL_CREATE \<and> result e = SUCCESS
           \<and> itemId e = Some (file_name file) \<and> entry_sha512 e = Some (sha512 sd)))
   \<and> (arrayBuffer file = Inl err \<longrightarrow>
        fst (sealFile p file geolocation w)
           = Inl (SealViolationError (''SEAL VIOLATION: Failed to seal file: '' @ message err))
         \<and> (\<exists>e. logs (snd (sealFile p file geolocation w)) = logs w @ [e]
                \<and> operation e = SEAL_CREATE \<and> result e = FAILURE
                \<and> itemId e = Some (file_name file) \<and> entry_reason e = Some (message err)))
   \<and> (arrayBuffer file = Inr bytes \<and> \<not> \<bar>lastModified file\<bar> \<le> maxTimeValue \<longrightarrow>
        fst (sealFile p file geolocation w)
           = Inl (SealViolationError (''SEAL VIOLATION: Failed to seal file: '' @ invalidTimeMessage p))
         \<and> (\<exists>e. logs (snd (sealFile p file geolocation w)) = logs w @ [e]
                \<and> operation e = SEAL_CREATE \<and> result e = FAILURE
                \<and> itemId e = Some (file_name file) \<and> entry_reason e = Some (invalidTimeMessage p)))"
proof (intro conjI impI)
  assume a: "arrayBuffer file = Inr bytes \<and> \<bar>lastModified file\<bar> \<le> maxTimeValue"
  show "\<exists>sd e. fst (sealFile p file geolocation w) = Inr sd
           \<and> sealed sd = True
           \<and> sha512 sd = hexString (subtle_digest p SHA_512 bytes)
           \<and> timestamp sd = currentTimeISO p (ticks w)
           \<and> chainOfCustody sd = custodySignature p
                (JObject [(''sha512'', JString (sha512 sd)), (''timestamp'', JString (timestamp sd)),
                          (''gps'', gpsValue (gps sd))])
           \<and> gps sd = sealedGps geolocation
           \<and> logs (snd (sealFile p file geolocation w)) = logs w @ [e]
           \<and> operation e = SEAL_CREATE \<and> result e = SUCCESS
           \<and> itemId e = Some (file_name file) \<and> entry_sha512 e = Some (sha512 sd)"
    using a by (intro sealFile_succeeds) simp_all
next
  assume a: "arrayBuffer file = Inl err"
  have t: "sealFile_try p file geolocation w = (Inl err, w)"
    by (rule sealFile_try_unreadable[OF a])
  from sealFile_fails[OF t]
  show "fst (sealFile p file geolocation w)
           = Inl (SealViolationError (''SEAL VIOLATION: Failed to seal file: '' @ message err))"
    and "\<exists>e. logs (snd (sealFile p file geolocation w)) = logs w @ [e]
                \<and> operation e = SEAL_CREATE \<and> result e = FAILURE
                \<and> itemId e = Some (file_name file) \<and> entry_reason e = Some (message err)"
    by simp_all
next
  assume a: "arrayBuffer file = Inr bytes \<and> \<not> \<bar>lastModified file\<bar> \<le> maxTimeValue"
  have t: "sealFile_try p file geolocation w
             = (Inl (RangeError (invalidTimeMessage p)), w\<lparr>ticks := Suc (ticks w)\<rparr>)"
    using a by (intro sealFile_try_invalid_date) simp_all
  from sealFile_fails[OF t]
  show "fst (sealFile p file geolocation w)
           = Inl (SealViolationError (''SEAL VIOLATION: Failed to seal file: '' @ invalidTimeMessage p))"
    and "\<exists>e. logs (snd (sealFile p file geolocation w)) = logs w @ [e]
                \<and> operation e = SEAL_CREATE \<and> result e = FAILURE
                \<and> itemId e = Some (file_name file) \<and> entry_reason e = Some (invalidTimeMessage p)"
    by simp_all
qed

text \<open>The three cases on \<open>contract.pdf\<close>, with no position.\<close>

theorem sealFile_postcondition_witness:
  "arrayBuffer exampleFile = Inr [37, 80, 68, 70] \<and> \<bar>lastModified exampleFile\<bar> \<le> maxTimeValue
   \<and> (\<exists>sd e. fst (sealFile examplePlatform exampleFile None emptyWorld) = Inr sd
         \<and> sealed sd = True \<and> gps sd = None
         \<and> timestamp sd = ''2025-01-22T10:00:00.000Z''
         \<and> logs (snd (sealFile examplePlatform exampleFile None emptyWorld)) = [e]
         \<and> operation e = SEAL_CREATE \<and> result e = SUCCESS \<and> itemId e = Some ''contract.pdf'')
   \<and> arrayBuffer unreadableFile = Inl (DOMException ''The file could not be read'')
   \<and> fst (sealFile examplePlatform unreadableFile None emptyWorld)
       = Inl (SealViolationError ''SEAL VIOLATION: Failed to seal file: The file could not be read'')
   \<and> arrayBuffer farFutureFile = Inr [37, 80, 68, 70] \<and> maxTimeValue < \<bar>lastModified farFutureFile\<bar>
   \<and> fst (sealFile examplePlatform farFutureFile None emptyWorld)
       = Inl (SealViolationError ''SEAL VIOLATION: Failed to seal file: Invalid time value'')"
proof -
  have a1: "arrayBuffer exampleFile = Inr [37, 80, 68, 70]"
    and a2: "\<bar>lastModified exampleFile\<bar> \<le> maxTimeValue"
    by (simp_all add: exampleFile_def maxTimeValue_def)
  have b: "arrayBuffer unreadableFile = Inl (DOMException ''The file could not be read'')"
    by (simp add: unreadableFile_def)
  have c1: "arrayBuffer farFutureFile = Inr [37, 80, 68, 70]"
    and c2: "maxTimeValue < \<bar>lastModified farFutureFile\<bar>"
    by (simp_all add: farFutureFile_def exampleFile_def maxTimeValue_def)
  have e: "logs emptyWorld = []" "ticks emptyWorld = 0"
    by (simp_all add: emptyWorld_def)
  have p: "currentTimeISO examplePlatform 0 = ''2025-01-22T10:00:00.000Z''"
    "invalidTimeMessage examplePlatform = ''Invalid time value''"
    by (simp_all add: examplePlatform_def)
  have n: "file_name exampleFile = ''contract.pdf''"
    by (simp add: exampleFile_def)
  have 1: "\<exists>sd e. fst (sealFile examplePlatform exampleFile None emptyWorld) = Inr sd
         \<and> sealed sd = True \<and> gps sd = None
         \<and> timestamp sd = ''2025-01-22T10:00:00.000Z''
         \<and> logs (snd (sealFile examplePlatform exampleFile None emptyWorld)) = [e]
         \<and> operation e = SEAL_CREATE \<and> result e = SUCCESS \<and> itemId e = Some ''contract.pdf''"
    using sealFile_postcondition[of exampleFile "[37, 80, 68, 70]" examplePlatform None emptyWorld] a1 a2
    by (auto simp add: e p n sealedGps_def)
  have 2: "fst (sealFile examplePlatform unreadableFile None emptyWorld)
       = Inl (SealViolationError ''SEAL VIOLATION: Failed to seal file: The file could not be read'')"
    using sealFile_postcondition[of unreadableFile _ examplePlatform None emptyWorld
        "DOMException ''The file could not be read''"] b
    by simp
  have 3: "fst (sealFile examplePlatform farFutureFile None emptyWorld)
       = Inl (SealViolationError ''SEAL VIOLATION: Failed to seal file: Invalid time value'')"
    using sealFile_postcondition[of farFutureFile "[37, 80, 68, 70]" examplePlatform None emptyWorld]
      c1 c2
    by (simp add: p)
  from a1 a2 1 b 2 c1 c2 3 show ?thesis by blast
qed

text \<open>
  C8 as stated fails: the bytes of this file can be read and hashed, and \<open>sealFile\<close>
  throws, since the metadata cannot be extracted.
\<close>

theorem sealFile_fails_on_invalid_lastModified:
  "arrayBuffer farFutureFile = Inr [37, 80, 68, 70]
   \<and> fst (sealFile examplePlatform farFutureFile None emptyWorld)
       = Inl (SealViolationError ''SEAL VIOLATION: Failed to seal file: Invalid time value'')
   \<and> map operation (logs (snd (sealFile examplePlatform farFutureFile None emptyWorld))) = [SEAL_CREATE]
   \<and> map result (logs (snd (sealFile examplePlatform farFutureFile None emptyWorld))) = [FAILURE]"
proof -
  have a: "arrayBuffer farFutureFile = Inr [37, 80, 68, 70]"
    by (simp add: farFutureFile_def exampleFile_def)
  have b: "\<not> \<bar>lastModified farFutureFile\<bar> \<le> maxTimeValue"
    by (simp add: farFutureFile_def maxTimeValue_def)
  have t: "sealFile_try examplePlatform farFutureFile None emptyWorld
             = (Inl (RangeError (invalidTimeMessage examplePlatform)),
                emptyWorld\<lparr>ticks := Suc (ticks emptyWorld)\<rparr>)"
    by (rule sealFile_try_invalid_date[OF a b])
  have m: "invalidTimeMessage examplePlatform = ''Invalid time value''"
    by (simp add: examplePlatform_def)
  from sealFile_fails[OF t] a m show ?thesis
    by (auto simp add: emptyWorld_def)
qed

section \<open>Admitting the same envelope twice\<close>

text \<open>
  C9 (gate idempotence and frame). For an envelope with \<open>sealed = true\<close> and the three
  required fields not empty, two calls of \<open>validateAndPass\<close> in a row each return the
  envelope they were given, unchanged, and the audit log grows by exactly two entries,
  both \<open>SEAL_VERIFY\<close> with result \<open>SUCCESS\<close> and the envelope's digest.
\<close>

theorem validateAndPass_twice:
  assumes "sealed d = True" and "sha512 d \<noteq> []" and "timestamp d \<noteq> []"
    and "chainOfCustody d \<noteq> []"
  shows "\<exists>w1 w2 e1 e2.
           validateAndPass p d fromModule toModule w = (Inr d, w1)
         \<and> validateAndPass p d fromModule toModule w1 = (Inr d, w2)
         \<and> logs w2 = logs w @ [e1, e2]
         \<and> operation e1 = SEAL_VERIFY \<and> result e1 = SUCCESS \<and> entry_sha512 e1 = Some (sha512 d)
         \<and> operation e2 = SEAL_VERIFY \<and> result e2 = SUCCESS \<and> entry_sha512 e2 = Some (sha512 d)"
proof -
  have v: "verifySealIntegrity d"
    using assms by (simp add: verifySealIntegrity_iff)
  have s: "sealed d" using assms by simp
  define w1 where "w1 = snd (validateAndPass p d fromModule toModule w)"
  define w2 where "w2 = snd (validateAndPass p d fromModule toModule w1)"
  have r1: "validateAndPass p d fromModule toModule w = (Inr d, w1)"
    using validateAndPass_valid_fst[OF s v, of p fromModule toModule w]
    by (simp add: w1_def prod_eq_iff)
  have r2: "validateAndPass p d fromModule toModule w1 = (Inr d, w2)"
    using validateAndPass_valid_fst[OF s v, of p fromModule toModule w1]
    by (simp add: w2_def prod_eq_iff)
  obtain e1 where e1: "logs w1 = logs w @ [e1]" "operation e1 = SEAL_VERIFY" "result e1 = SUCCESS"
      "entry_sha512 e1 = Some (sha512 d)"
    using validateAndPass_valid_logs[OF s v, of p fromModule toModule w] unfolding w1_def by blast
  obtain e2 where e2: "logs w2 = logs w1 @ [e2]" "operation e2 = SEAL_VERIFY" "result e2 = SUCCESS"
      "entry_sha512 e2 = Some (sha512 d)"
    using validateAndPass_valid_logs[OF s v, of p fromModule toModule w1] unfolding w2_def by blast
  have "logs w2 = logs w @ [e1, e2]" using e1 e2 by simp
  with r1 r2 e1 e2 show ?thesis by blast
qed

text \<open>Two admissions of the same envelope, from an empty log.\<close>

theorem validateAndPass_twice_witness:
  "sealed sealedEnvelope = True \<and> sha512 sealedEnvelope \<noteq> [] \<and> timestamp sealedEnvelope \<noteq> []
   \<and> chainOfCustody sealedEnvelope \<noteq> []
   \<and> (\<exists>w1 w2 e1 e2.
         validateAndPass examplePlatform sealedEnvelope ''UploadModule'' ''ContradictionBrain'' emptyWorld
           = (Inr sealedEnvelope, w1)
       \<and> validateAndPass examplePlatform sealedEnvelope ''UploadModule'' ''ContradictionBrain'' w1
           = (Inr sealedEnvelope, w2)
       \<and> logs w2 = [e1, e2]
       \<and> operation e1 = SEAL_VERIFY \<and> result e1 = SUCCESS
       \<and> operation e2 = SEAL_VERIFY \<and> result e2 = SUCCESS)"
proof -
  have h: "sealed sealedEnvelope = True" "sha512 sealedEnvelope \<noteq> []" "timestamp sealedEnvelope \<noteq> []"
    "chainOfCustody sealedEnvelope \<noteq> []"
    by (simp_all add: sealedEnvelope_def)
  have l: "logs emptyWorld = []" by (simp add: emptyWorld_def)
  from validateAndPass_twice[OF h, of examplePlatform "''UploadModule''" "''ContradictionBrain''" emptyWorld]
  obtain w1 w2 e1 e2 where
    "validateAndPass examplePlatform sealedEnvelope ''UploadModule'' ''ContradictionBrain'' emptyWorld
           = (Inr sealedEnvelope, w1)"
    "validateAndPass examplePlatform sealedEnvelope ''UploadModule'' ''ContradictionBrain'' w1
           = (Inr sealedEnvelope, w2)"
    "logs w2 = logs emptyWorld @ [e1, e2]"
    "operation e1 = SEAL_VERIFY" "result e1 = SUCCESS"
    "operation e2 = SEAL_VERIFY" "result e2 = SUCCESS"
    by blast
  with h l show ?thesis by (intro conjI exI[of _ w1] exI[of _ w2] exI[of _ e1] exI[of _ e2]) simp_all
qed

section \<open>validateSeal\<close>

lemma truthy_iff_not_falsy: "truthy v = (\<not> falsy v)"
  by (cases v) (auto simp add: falsy_def)

lemma object_check: "(truthy d \<and> typeof d = ''object'') = isObject d"
  by (cases d) simp_all

text \<open>Without the first check of \<open>validateSeal\<close>, its first read would throw on \<open>null\<close>.\<close>

lemma reading_null_throws: "getProp JNull ''sealed'' = Inl (TypeError (cannotRead ''null'' ''sealed''))"
  by simp

lemma getProp_object:
  "isObject d \<Longrightarrow> getProp d k = Inr (case ownProp d k of None \<Rightarrow> JUndefined | Some v \<Rightarrow> v)"
  by (cases d) simp_all

lemma notProp_object: "isObject d \<Longrightarrow> notProp d k = Inr (missingOrFalsy d k)"
  by (simp add: notProp_def getProp_object missingOrFalsy_def truthy_iff_not_falsy falsy_def
        split: option.splits)

lemma sealed_flag_object:
  "isObject d \<Longrightarrow>
     ((case ownProp d ''sealed'' of None \<Rightarrow> JUndefined | Some v \<Rightarrow> v) = JBoolean True)
       = (ownProp d ''sealed'' = Some (JBoolean True))"
  by (simp split: option.splits)

lemma validateSeal_not_object:
  "\<not> isObject d \<Longrightarrow>
     validateSeal d = Inr \<lparr>valid = False, reason = Some ''Data is not an object'', auditEntry = None\<rparr>"
  using object_check[of d] by (auto simp add: validateSeal_def)

lemma validateSeal_object:
  "isObject d \<Longrightarrow>
     validateSeal d =
       (if ownProp d ''sealed'' \<noteq> Some (JBoolean True) then
          Inr \<lparr>valid = False, reason = Some ''Data is not marked as sealed'', auditEntry = None\<rparr>
        else if missingOrFalsy d ''sha512'' \<or> missingOrFalsy d ''timestamp''
                \<or> missingOrFalsy d ''chainOfCustody'' then
          Inr \<lparr>valid = False,
               reason = Some ''Missing required seal fields (sha512, timestamp, or chainOfCustody)'',
               auditEntry = None\<rparr>
        else Inr \<lparr>valid = True, reason = None, auditEntry = None\<rparr>)"
  using object_check[of d]
  by (auto simp add: validateSeal_def getProp_object notProp_object orElse_def sealed_flag_object)

text \<open>
  C10 (validateSeal classifies without raising), as the code has it. For every value,
  \<open>null\<close> and \<open>undefined\<close> among them, \<open>validateSeal\<close> returns a result and does
  not throw: it reads no property before it has checked that the value is an object. The
  result has \<open>valid = false\<close> exactly when the value is not an object, or its \<open>sealed\<close>
  is not \<open>true\<close>, or one of \<open>sha512\<close>, \<open>timestamp\<close>, \<open>chainOfCustody\<close> is missing
  or falsy (\<open>undefined\<close>, \<open>null\<close>, \<open>false\<close>, zero, \<open>NaN\<close> or the empty string). A
  result with \<open>valid = false\<close> has a non-empty reason, one with \<open>valid = true\<close> has
  none.
\<close>

theorem validateSeal_classifies:
  "\<exists>r. validateSeal d = Inr r
      \<and> (valid r = False) =
          (\<not> isObject d \<or> ownProp d ''sealed'' \<noteq> Some (JBoolean True)
           \<or> missingOrFalsy d ''sha512'' \<or> missingOrFalsy d ''timestamp''
           \<or> missingOrFalsy d ''chainOfCustody'')
      \<and> (valid r = False \<longrightarrow> (\<exists>m. reason r = Some m \<and> m \<noteq> []))
      \<and> (valid r = True \<longrightarrow> reason r = None)"
proof (cases "isObject d")
  case False
  then show ?thesis by (simp add: validateSeal_not_object)
next
  case True
  then show ?thesis by (simp add: validateSeal_object)
qed

text \<open>
  A sealed packet, \<open>null\<close>, \<open>undefined\<close>, and a packet whose digest is the empty string.
\<close>

theorem validateSeal_classifies_witness:
  "isObject sealedPacket
   \<and> validateSeal sealedPacket = Inr \<lparr>valid = True, reason = None, auditEntry = None\<rparr>
   \<and> (\<exists>r. validateSeal JNull = Inr r \<and> valid r = False \<and> (\<exists>m. reason r = Some m \<and> m \<noteq> []))
   \<and> (\<exists>r. validateSeal JUndefined = Inr r \<and> valid r = False \<and> (\<exists>m. reason r = Some m \<and> m \<noteq> []))
   \<and> missingOrFalsy emptyDigestPacket ''sha512''
   \<and> (\<exists>r. validateSeal emptyDigestPacket = Inr r \<and> valid r = False
            \<and> (\<exists>m. reason r = Some m \<and> m \<noteq> []))"
proof -
  have s: "isObject sealedPacket" "ownProp sealedPacket ''sealed'' = Some (JBoolean True)"
    "\<not> missingOrFalsy sealedPacket ''sha512''" "\<not> missingOrFalsy sealedPacket ''timestamp''"
    "\<not> missingOrFalsy sealedPacket ''chainOfCustody''"
    by (simp_all add: sealedPacket_def missingOrFalsy_def falsy_def)
  from validateSeal_classifies[of sealedPacket] s
  obtain r where r: "validateSeal sealedPacket = Inr r" "valid r = True" "reason r = None"
    by auto
  have a: "auditEntry r = None"
    using r(1) s by (simp add: validateSeal_object split: if_splits) auto
  have 1: "validateSeal sealedPacket = Inr \<lparr>valid = True, reason = None, auditEntry = None\<rparr>"
    using r a by (cases r) simp
  have 2: "\<exists>r. validateSeal JNull = Inr r \<and> valid r = False \<and> (\<exists>m. reason r = Some m \<and> m \<noteq> [])"
    using validateSeal_classifies[of JNull] by auto
  have 3: "\<exists>r. validateSeal JUndefined = Inr r \<and> valid r = False
              \<and> (\<exists>m. reason r = Some m \<and> m \<noteq> [])"
    using validateSeal_classifies[of JUndefined] by auto
  have f: "missingOrFalsy emptyDigestPacket ''sha512''"
    by (simp add: emptyDigestPacket_def missingOrFalsy_def falsy_def)
  have 4: "\<exists>r. validateSeal emptyDigestPacket = Inr r \<and> valid r = False
              \<and> (\<exists>m. reason r = Some m \<and> m \<noteq> [])"
    using validateSeal_classifies[of emptyDigestPacket] f by auto
  from s(1) 1 2 3 f 4 show ?thesis by blast
qed

text \<open>
  C10 as stated fails: this packet is an object, its \<open>sealed\<close> is \<open>true\<close>, none of the
  three fields is missing, and the result is \<open>valid = false\<close>.
\<close>

theorem validateSeal_rejects_present_empty_digest:
  "isObject emptyDigestPacket
   \<and> ownProp emptyDigestPacket ''sealed'' = Some (JBoolean True)
   \<and> hasProp emptyDigestPacket ''sha512''
   \<and> hasProp emptyDigestPacket ''timestamp''
   \<and> hasProp emptyDigestPacket ''chainOfCustody''
   \<and> validateSeal emptyDigestPacket
       = Inr \<lparr>valid = False,
              reason = Some ''Missing required seal fields (sha512, timestamp, or chainOfCustody)'',
              auditEntry = None\<rparr>"
  by (simp add: emptyDigestPacket_def validateSeal_def hasProp_def notProp_def orElse_def)

end
